theory Spec2Isabelle
  imports Main
begin

section \<open>The notification endpoint of \<^verbatim>\<open>src/routes/listen.js\<close>\<close>

text \<open>
  The file holds one express handler, \<^verbatim>\<open>router.post('/', async function (req, res) ...)\<close>,
  and its three functions \<^verbatim>\<open>processEncryptedNotification\<close>, \<^verbatim>\<open>processNotification\<close> and
  \<^verbatim>\<open>emitNotification\<close>. The handler is embedded as a function from the state before the
  request to the way the handler completes (it returns, or an exception leaves it) and the
  state after it. The state is the subscription store and the sequence of effects the
  handler has had on the outside: what it wrote to the console, what it sent on the
  response, which records it asked the store for, which payloads it decrypted, which
  resources it fetched and which events it emitted.
\<close>

subsection \<open>Values\<close>

text \<open>JSON documents: the plaintext of an encrypted notification once parsed, the
  projection fetched from the resource graph, and the empty object \<^verbatim>\<open>{}\<close>.\<close>

datatype json =
    JNull
  | JBool bool
  | JNumber int
  | JString string
  | JArray "json list"
  | JObject "(string \<times> json) list"

text \<open>What a JavaScript call throws. \<open>TypeError\<close> and \<open>SyntaxError\<close> are the language's own
  (a \<^verbatim>\<open>reduce\<close> of an empty array, a property of \<^verbatim>\<open>undefined\<close>, \<^verbatim>\<open>JSON.parse\<close>);
  \<open>HelperError\<close> is whatever a helper module throws or rejects with.\<close>

datatype js_error =
    TypeError string
  | SyntaxError string
  | HelperError string

type_synonym symmetric_key = string
type_synonym msal_client = string
type_synonym graph_client = string

subsection \<open>The request\<close>

text \<open>\<^verbatim>\<open>notification.encryptedContent\<close>: the three fields the handler reads.\<close>

record encrypted_content =
  dataKey :: string
  dataSignature :: string
  data :: string

text \<open>\<^verbatim>\<open>notification.resourceData\<close>: \<open>rd_id\<close> is its \<^verbatim>\<open>id\<close>, \<open>odata_type\<close> its
  \<^verbatim>\<open>"@odata.type"\<close>.\<close>

record resource_data =
  rd_id :: string
  odata_type :: string

text \<open>One entry of \<^verbatim>\<open>req.body.value\<close>. \<open>encryptedContent\<close> and \<open>resourceData\<close> are
  objects that a notification may lack: the handler tests the first for presence, and reads
  \<^verbatim>\<open>resourceData.id\<close> with no test, which throws when there is none. \<open>clientState\<close> is a
  string or absent, which is what the environment variable it is compared with can be.\<close>

record notification =
  subscriptionId :: string
  clientState :: "string option"
  changeType :: string
  resource :: string
  resourceData :: "resource_data option"
  encryptedContent :: "encrypted_content option"

text \<open>\<^verbatim>\<open>req.body\<close>: \<open>validationTokens\<close> is tested for presence, \<open>body_value\<close> is
  \<^verbatim>\<open>req.body.value\<close>.\<close>

record body =
  validationTokens :: "string list option"
  body_value :: "notification list"

text \<open>The request: \<^verbatim>\<open>req.query.validationToken\<close>, \<^verbatim>\<open>req.body\<close> and
  \<^verbatim>\<open>req.app.locals.msalClient\<close>.\<close>

record request =
  query_validationToken :: "string option"
  req_body :: body
  msalClient :: msal_client

subsection \<open>Configuration and helper modules\<close>

text \<open>The four variables of \<^verbatim>\<open>process.env\<close> the file reads; each is a string or unset.\<close>

record process_env =
  OAUTH_CLIENT_ID :: "string option"
  OAUTH_TENANT_ID :: "string option"
  SUBSCRIPTION_CLIENT_STATE :: "string option"
  PRIVATE_KEY_PATH :: "string option"

text \<open>
  The helper modules the file requires (\<^verbatim>\<open>tokenHelper\<close>, \<^verbatim>\<open>certHelper\<close>,
  \<^verbatim>\<open>graphHelper\<close>) are not part of the file; with \<^verbatim>\<open>JSON.parse\<close> they are parameters
  of the model. Each call either returns a value (\<open>Inr\<close>) or throws (\<open>Inl\<close>); for the
  asynchronous ones \<open>Inl\<close> is a rejected promise, which \<^verbatim>\<open>await\<close> throws.
  \<open>graph_get client path select\<close> is \<^verbatim>\<open>client.api(path).select(select).get()\<close>.
\<close>

record helpers =
  isTokenValid :: "string \<Rightarrow> string option \<Rightarrow> string option \<Rightarrow> js_error + bool"
  decryptSymmetricKey :: "string \<Rightarrow> string option \<Rightarrow> js_error + symmetric_key"
  verifySignature :: "string \<Rightarrow> string \<Rightarrow> symmetric_key \<Rightarrow> js_error + bool"
  decryptPayload :: "string \<Rightarrow> symmetric_key \<Rightarrow> js_error + string"
  JSON_parse :: "string \<Rightarrow> js_error + json"
  getGraphClientForUser :: "msal_client \<Rightarrow> string \<Rightarrow> js_error + graph_client"
  graph_get :: "graph_client \<Rightarrow> string \<Rightarrow> string \<Rightarrow> js_error + json"

subsection \<open>State and effects\<close>

text \<open>A subscription record of the store; the handler reads its \<^verbatim>\<open>userAccountId\<close>.\<close>

record subscription =
  userAccountId :: string

text \<open>The object \<^verbatim>\<open>{ type: ..., resource: ... }\<close> handed to \<^verbatim>\<open>emitNotification\<close>.\<close>

record dispatch_event =
  ev_type :: string
  ev_resource :: json

text \<open>What \<^verbatim>\<open>console.log\<close> and \<^verbatim>\<open>console.error\<close> are given: the request body
  (line 26), a message, an error.\<close>

datatype console_entry =
    LogBody body
  | LogMsg string
  | LogErr js_error

text \<open>
  The effects, in the order the handler has them:
  \<^item> \<open>Console\<close>: \<^verbatim>\<open>console.log\<close> or \<^verbatim>\<open>console.error\<close>;
  \<^item> \<open>ResSet\<close>, \<open>ResSend\<close>: \<^verbatim>\<open>res.set(name, value)\<close>, \<^verbatim>\<open>res.send(text)\<close>;
  \<^item> \<open>ResStatusEnd n\<close>: \<^verbatim>\<open>res.status(n).end()\<close>;
  \<^item> \<open>DbGet\<close>: \<^verbatim>\<open>dbHelper.getSubscription(id)\<close>;
  \<^item> \<open>DecryptPayload\<close>: \<^verbatim>\<open>certHelper.decryptPayload(data, key)\<close> is called;
  \<^item> \<open>GraphGet\<close>: \<^verbatim>\<open>client.api(path).select(select).get()\<close> is called;
  \<^item> \<open>Emit\<close>: \<^verbatim>\<open>ioServer.to(subscriptionId).emit('notification_received', data)\<close>.
\<close>

datatype effect =
    Console console_entry
  | ResSet string string
  | ResSend string
  | ResStatusEnd nat
  | DbGet string
  | DecryptPayload string symmetric_key
  | GraphGet graph_client string string
  | Emit string dispatch_event

record pstate =
  store :: "string \<rightharpoonup> subscription"
  trace :: "effect list"

text \<open>How a function completes: it returns, or an exception leaves it.\<close>

datatype completion = Normal | Thrown js_error

definition effect :: "effect \<Rightarrow> pstate \<Rightarrow> pstate" where
  "effect e st = st\<lparr>trace := trace st @ [e]\<rparr>"

text \<open>The events emitted, the payload decryptions and the fetches among some effects.\<close>

fun dispatches :: "effect list \<Rightarrow> (string \<times> dispatch_event) list" where
  "dispatches [] = []"
| "dispatches (Emit sid d # es) = (sid, d) # dispatches es"
| "dispatches (e # es) = dispatches es"

fun decryptions :: "effect list \<Rightarrow> (string \<times> symmetric_key) list" where
  "decryptions [] = []"
| "decryptions (DecryptPayload c k # es) = (c, k) # decryptions es"
| "decryptions (e # es) = decryptions es"


text \<open>The statuses the handler has ended the response with.\<close>

fun responses :: "effect list \<Rightarrow> nat list" where
  "responses [] = []"
| "responses (ResStatusEnd n # es) = n # responses es"
| "responses (e # es) = responses es"

subsection \<open>JavaScript library functions\<close>

text \<open>A string or \<^verbatim>\<open>undefined\<close> as a condition: true for a string that is not empty.\<close>

definition truthy :: "string option \<Rightarrow> bool" where
  "truthy v = (case v of None \<Rightarrow> False | Some s \<Rightarrow> s \<noteq> [])"

text \<open>\<^verbatim>\<open>await Promise.all(ps)\<close>: the values of all the promises, or the rejection of one
  (the first in the array here).\<close>

fun promise_all :: "(js_error + 'a) list \<Rightarrow> js_error + 'a list" where
  "promise_all [] = Inr []"
| "promise_all (Inl e # ps) = Inl e"
| "promise_all (Inr x # ps) =
     (case promise_all ps of Inl e \<Rightarrow> Inl e | Inr xs \<Rightarrow> Inr (x # xs))"

text \<open>\<^verbatim>\<open>results.reduce((x, y) => x && y)\<close>: with no initial value the first element
  starts the accumulator, and an empty array is a \<^verbatim>\<open>TypeError\<close>.\<close>

fun reduce_and :: "bool list \<Rightarrow> js_error + bool" where
  "reduce_and [] = Inl (TypeError ''Reduce of empty array with no initial value'')"
| "reduce_and (x # xs) = Inr (foldl (\<lambda>x y. x \<and> y) x xs)"

subsection \<open>The store\<close>

text \<open>Modelled from the spec: \<^verbatim>\<open>dbHelper.getSubscription\<close> is not part of the file. The
  spec gives it as \<^verbatim>\<open>SubscriptionResolver.lookup(subscriptionId) -> Subscription | None\<close>, a
  read of the external store by id.\<close>

definition getSubscription :: "(string \<rightharpoonup> subscription) \<Rightarrow> string \<Rightarrow> subscription option" where
  "getSubscription db sid = db sid"

subsection \<open>The functions of the file\<close>

text \<open>Lines 169-171.\<close>

definition emitNotification :: "string \<Rightarrow> dispatch_event \<Rightarrow> pstate \<Rightarrow> pstate" where
  "emitNotification sid d st = effect (Emit sid d) st"

text \<open>Lines 74-101. Nothing is caught here: what a helper or \<^verbatim>\<open>JSON.parse\<close> throws leaves
  the function. Called on a notification with no \<^verbatim>\<open>encryptedContent\<close>, reading
  \<^verbatim>\<open>encryptedContent.dataKey\<close> is a \<^verbatim>\<open>TypeError\<close>.\<close>

definition processEncryptedNotification ::
  "helpers \<Rightarrow> process_env \<Rightarrow> notification \<Rightarrow> pstate \<Rightarrow> completion \<times> pstate" where
  "processEncryptedNotification h pe n st =
     (case encryptedContent n of
        None \<Rightarrow> (Thrown (TypeError ''Cannot read properties of undefined''), st)
      | Some ec \<Rightarrow>
         (case decryptSymmetricKey h (dataKey ec) (PRIVATE_KEY_PATH pe) of
            Inl e \<Rightarrow> (Thrown e, st)
          | Inr symmetricKey \<Rightarrow>
             (case verifySignature h (dataSignature ec) (data ec) symmetricKey of
                Inl e \<Rightarrow> (Thrown e, st)
              | Inr isSignatureValid \<Rightarrow>
                 if isSignatureValid then
                   (let st1 = effect (DecryptPayload (data ec) symmetricKey) st in
                    case decryptPayload h (data ec) symmetricKey of
                      Inl e \<Rightarrow> (Thrown e, st1)
                    | Inr decryptedPayload \<Rightarrow>
                       (case JSON_parse h decryptedPayload of
                          Inl e \<Rightarrow> (Thrown e, st1)
                        | Inr parsed \<Rightarrow>
                           (Normal,
                            emitNotification (subscriptionId n)
                              \<lparr>ev_type = ''chatMessage'', ev_resource = parsed\<rparr> st1)))
                 else (Normal, st))))"

text \<open>Lines 108-163. \<^verbatim>\<open>notification.resourceData.id\<close> is read and
  \<^verbatim>\<open>getGraphClientForUser\<close> is called before the \<^verbatim>\<open>try\<close>: the \<^verbatim>\<open>TypeError\<close> of a
  notification with no \<^verbatim>\<open>resourceData\<close>, and what the helper throws, leave the function.
  What the fetch throws is caught and written to the console.\<close>

definition processNotification ::
  "helpers \<Rightarrow> notification \<Rightarrow> msal_client \<Rightarrow> string \<Rightarrow> pstate \<Rightarrow> completion \<times> pstate" where
  "processNotification h n msal uid st =
     (case resourceData n of
        None \<Rightarrow> (Thrown (TypeError ''Cannot read properties of undefined''), st)
      | Some rd \<Rightarrow>
         (let messageId = rd_id rd in
          case getGraphClientForUser h msal uid of
            Inl e \<Rightarrow> (Thrown e, st)
          | Inr client \<Rightarrow>
             if ''created'' = changeType n then
               (let path = ''/'' @ resource n;
                    st1 = effect (GraphGet client path ''subject,id'') st in
                case graph_get h client path ''subject,id'' of
                  Inl err \<Rightarrow>
                   (Normal,
                    effect (Console (LogErr err))
                      (effect (Console (LogMsg (''Error getting event with '' @ messageId @ '':'')))
                         st1))
                | Inr event \<Rightarrow>
                   (Normal,
                    emitNotification (subscriptionId n)
                      \<lparr>ev_type = odata_type rd, ev_resource = event\<rparr> st1))
             else
               (Normal,
                emitNotification (subscriptionId n)
                  \<lparr>ev_type = ''event'', ev_resource = JObject []\<rparr> st)))"

text \<open>Lines 44-64, the body of the loop over \<^verbatim>\<open>req.body.value\<close>.\<close>

definition notification_step ::
  "helpers \<Rightarrow> process_env \<Rightarrow> msal_client \<Rightarrow> notification \<Rightarrow> pstate \<Rightarrow> completion \<times> pstate" where
  "notification_step h pe msal n st =
     (if clientState n = SUBSCRIPTION_CLIENT_STATE pe then
        (let st1 = effect (DbGet (subscriptionId n)) st in
         case getSubscription (store st1) (subscriptionId n) of
           None \<Rightarrow> (Normal, st1)
         | Some sub \<Rightarrow>
            (case encryptedContent n of
               Some ec \<Rightarrow> processEncryptedNotification h pe n st1
             | None \<Rightarrow> processNotification h n msal (userAccountId sub) st1))
      else (Normal, st))"

text \<open>Lines 43-65, the loop: an exception ends it.\<close>

fun for_notifications ::
  "helpers \<Rightarrow> process_env \<Rightarrow> msal_client \<Rightarrow> notification list \<Rightarrow> pstate \<Rightarrow> completion \<times> pstate" where
  "for_notifications h pe msal [] st = (Normal, st)"
| "for_notifications h pe msal (n # ns) st =
     (case notification_step h pe msal n st of
        (Thrown e, st') \<Rightarrow> (Thrown e, st')
      | (Normal, st') \<Rightarrow> for_notifications h pe msal ns st')"

text \<open>Lines 29-40: \<open>areTokensValid\<close>, or the exception of the \<^verbatim>\<open>await\<close> or of the
  \<^verbatim>\<open>reduce\<close>. An empty array is present (it is truthy in JavaScript).\<close>

definition areTokensValid :: "helpers \<Rightarrow> process_env \<Rightarrow> body \<Rightarrow> js_error + bool" where
  "areTokensValid h pe b =
     (case validationTokens b of
        None \<Rightarrow> Inr True
      | Some tokens \<Rightarrow>
         (case promise_all
                 (map (\<lambda>token. isTokenValid h token (OAUTH_CLIENT_ID pe) (OAUTH_TENANT_ID pe))
                    tokens) of
            Inl e \<Rightarrow> Inl e
          | Inr validationResults \<Rightarrow> reduce_and validationResults))"

text \<open>Lines 26-68, the handler once the request is not the endpoint validation.\<close>

definition receive_batch :: "helpers \<Rightarrow> process_env \<Rightarrow> request \<Rightarrow> pstate \<Rightarrow> completion \<times> pstate" where
  "receive_batch h pe req st =
     (let st0 = effect (Console (LogBody (req_body req))) st in
      case areTokensValid h pe (req_body req) of
        Inl e \<Rightarrow> (Thrown e, st0)
      | Inr valid \<Rightarrow>
         (case (if valid then for_notifications h pe (msalClient req) (body_value (req_body req)) st0
                else (Normal, st0)) of
            (Thrown e, st') \<Rightarrow> (Thrown e, st')
          | (Normal, st') \<Rightarrow> (Normal, effect (ResStatusEnd 202) st')))"

text \<open>Lines 12-69, the handler of \<^verbatim>\<open>POST /listen\<close>. A \<^verbatim>\<open>validationToken\<close> in the query
  string that is not empty is sent back as plain text, and the handler returns.\<close>

definition router_post :: "helpers \<Rightarrow> process_env \<Rightarrow> request \<Rightarrow> pstate \<Rightarrow> completion \<times> pstate" where
  "router_post h pe req st =
     (case query_validationToken req of
        None \<Rightarrow> receive_batch h pe req st
      | Some token \<Rightarrow>
         if truthy (Some token) then
           (Normal, effect (ResSend token) (effect (ResSet ''Content-Type'' ''text/plain'') st))
         else receive_batch h pe req st)"

subsection \<open>A concrete deployment\<close>

text \<open>
  Stand-ins for the helper modules, used to run the handler on concrete batches. The token
  \<^verbatim>\<open>good\<close> verifies and any other does not; the wrapped key \<^verbatim>\<open>wrapped\<close> unwraps to
  \<^verbatim>\<open>K\<close> and any other makes the unwrap throw; a signature is valid when it is
  \<^verbatim>\<open>mac:\<close> followed by the ciphertext; the ciphertext \<^verbatim>\<open>cipher\<close> decrypts to the
  text \<^verbatim>\<open>{}\<close>, on \<^verbatim>\<open>truncated\<close> the decryption throws, and any other decrypts to a
  text that is not JSON; \<^verbatim>\<open>JSON.parse\<close> reads \<^verbatim>\<open>{}\<close> and throws on the rest; a graph
  client is made for a user account id that is not empty and the helper throws for an empty
  one; the graph has one event. The store has the subscription \<^verbatim>\<open>sub1\<close> of the user
  \<^verbatim>\<open>u1\<close>, and the subscription \<^verbatim>\<open>sub2\<close> with an empty user account id.
\<close>

definition example_env :: process_env where
  "example_env =
     \<lparr>OAUTH_CLIENT_ID = Some ''app'', OAUTH_TENANT_ID = Some ''tenant'',
      SUBSCRIPTION_CLIENT_STATE = Some ''secret'', PRIVATE_KEY_PATH = Some ''key.pem''\<rparr>"

definition example_event :: json where
  "example_event = JObject [(''id'', JString ''e1''), (''subject'', JString ''Standup'')]"

definition example_helpers :: helpers where
  "example_helpers =
     \<lparr>isTokenValid = (\<lambda>token appId tenantId. Inr (token = ''good'')),
      decryptSymmetricKey =
        (\<lambda>k path. if k = ''wrapped'' then Inr ''K'' else Inl (HelperError ''unwrap'')),
      verifySignature = (\<lambda>sig d k. Inr (sig = ''mac:'' @ d)),
      decryptPayload =
        (\<lambda>d k. if d = ''cipher'' then Inr ''{}''
               else if d = ''truncated'' then Inl (HelperError ''bad decrypt'')
               else Inr ''<html>''),
      JSON_parse =
        (\<lambda>s. if s = ''{}'' then Inr (JObject []) else Inl (SyntaxError ''Unexpected token'')),
      getGraphClientForUser =
        (\<lambda>msal uid. if uid = [] then Inl (HelperError ''Invalid MSAL state'') else Inr uid),
      graph_get =
        (\<lambda>client path select.
           if path = ''/users/u1/events/e1'' then Inr example_event
           else Inl (HelperError ''404''))\<rparr>"

definition example_state :: pstate where
  "example_state =
     \<lparr>store = [''sub1'' \<mapsto> \<lparr>userAccountId = ''u1''\<rparr>, ''sub2'' \<mapsto> \<lparr>userAccountId = []\<rparr>],
      trace = []\<rparr>"

text \<open>A plain notification of the subscription \<^verbatim>\<open>sub1\<close>, with the right client state.\<close>

definition plain_notification :: "string \<Rightarrow> string \<Rightarrow> notification" where
  "plain_notification change path =
     \<lparr>subscriptionId = ''sub1'', clientState = Some ''secret'', changeType = change,
      resource = path,
      resourceData = Some \<lparr>rd_id = ''e1'', odata_type = ''#Microsoft.Graph.Event''\<rparr>,
      encryptedContent = None\<rparr>"

text \<open>An encrypted notification of the same subscription, with the given wrapped key,
  signature and ciphertext.\<close>

definition encrypted_notification :: "string \<Rightarrow> string \<Rightarrow> string \<Rightarrow> notification" where
  "encrypted_notification k sig d =
     \<lparr>subscriptionId = ''sub1'', clientState = Some ''secret'', changeType = ''created'',
      resource = ''chats/c1/messages/m1'',
      resourceData = Some \<lparr>rd_id = ''m1'', odata_type = ''#Microsoft.Graph.chatMessage''\<rparr>,
      encryptedContent = Some \<lparr>dataKey = k, dataSignature = sig, data = d\<rparr>\<rparr>"

text \<open>A request with no \<^verbatim>\<open>validationToken\<close> in its query string.\<close>

definition batch_request :: "string list option \<Rightarrow> notification list \<Rightarrow> request" where
  "batch_request tokens ns =
     \<lparr>query_validationToken = None,
      req_body = \<lparr>validationTokens = tokens, body_value = ns\<rparr>,
      msalClient = ''msal''\<rparr>"

section \<open>Properties\<close>

subsection \<open>Effects and library functions\<close>

lemma store_effect: "store (effect e st) = store st"
  by (simp add: effect_def)

lemma trace_effect: "trace (effect e st) = trace st @ [e]"
  by (simp add: effect_def)

lemma dispatches_append: "dispatches (xs @ ys) = dispatches xs @ dispatches ys"
  by (induction xs rule: dispatches.induct) simp_all

lemma decryptions_append: "decryptions (xs @ ys) = decryptions xs @ decryptions ys"
  by (induction xs rule: decryptions.induct) simp_all


lemma responses_append: "responses (xs @ ys) = responses xs @ responses ys"
  by (induction xs rule: responses.induct) simp_all

lemma promise_all_map_Inr: "promise_all (map Inr xs) = Inr xs"
  by (induction xs) simp_all

lemma foldl_and: "foldl (\<lambda>x y. x \<and> y) b bs = (b \<and> list_all (\<lambda>r. r) bs)"
  by (induction bs arbitrary: b) auto

lemma reduce_and_nonempty: "bs \<noteq> [] \<Longrightarrow> reduce_and bs = Inr (list_all (\<lambda>r. r) bs)"
  by (cases bs) (simp_all add: foldl_and)

lemma router_post_batch:
  "\<not> truthy (query_validationToken req) \<Longrightarrow> router_post h pe req st = receive_batch h pe req st"
  by (cases "query_validationToken req") (simp_all add: router_post_def)

subsection \<open>The handler and the state\<close>

text \<open>
  The handler reads the store and appends to the trace, and nothing else: started on a
  state with a longer history it completes the same way and appends the same effects, and it
  leaves the store as it found it.
\<close>

lemma processEncryptedNotification_shift:
  "processEncryptedNotification h pe n (st\<lparr>trace := p @ trace st\<rparr>) =
     (case processEncryptedNotification h pe n st of (c, s) \<Rightarrow> (c, s\<lparr>trace := p @ trace s\<rparr>))"
  by (simp add: processEncryptedNotification_def emitNotification_def effect_def Let_def
      split: option.splits sum.splits)

lemma processNotification_shift:
  "processNotification h n msal uid (st\<lparr>trace := p @ trace st\<rparr>) =
     (case processNotification h n msal uid st of (c, s) \<Rightarrow> (c, s\<lparr>trace := p @ trace s\<rparr>))"
  by (simp add: processNotification_def emitNotification_def effect_def Let_def
      split: option.splits sum.splits)

lemma notification_step_shift:
  "notification_step h pe msal n (st\<lparr>trace := p @ trace st\<rparr>) =
     (case notification_step h pe msal n st of (c, s) \<Rightarrow> (c, s\<lparr>trace := p @ trace s\<rparr>))"
  by (simp add: notification_step_def processEncryptedNotification_def processNotification_def
      emitNotification_def effect_def Let_def getSubscription_def
      split: option.splits sum.splits)

lemma for_notifications_shift:
  "for_notifications h pe msal ns (st\<lparr>trace := p @ trace st\<rparr>) =
     (case for_notifications h pe msal ns st of (c, s) \<Rightarrow> (c, s\<lparr>trace := p @ trace s\<rparr>))"
proof (induction ns arbitrary: st)
  case Nil
  show ?case by simp
next
  case (Cons n ns)
  obtain c s where step: "notification_step h pe msal n st = (c, s)"
    by (cases "notification_step h pe msal n st")
  show ?case
  proof (cases c)
    case Normal
    with step Cons.IH [of s] show ?thesis
      by (simp add: notification_step_shift)
  next
    case (Thrown e)
    with step show ?thesis
      by (simp add: notification_step_shift)
  qed
qed

lemma store_processEncryptedNotification:
  "store (snd (processEncryptedNotification h pe n st)) = store st"
  by (simp add: processEncryptedNotification_def emitNotification_def effect_def Let_def
      split: option.splits sum.splits)

lemma store_processNotification:
  "store (snd (processNotification h n msal uid st)) = store st"
  by (simp add: processNotification_def emitNotification_def effect_def Let_def
      split: option.splits sum.splits)

lemma store_notification_step:
  "store (snd (notification_step h pe msal n st)) = store st"
  by (simp add: notification_step_def store_processEncryptedNotification
      store_processNotification store_effect Let_def split: option.splits)

lemma store_for_notifications:
  "store (snd (for_notifications h pe msal ns st)) = store st"
proof (induction ns arbitrary: st)
  case Nil
  show ?case by simp
next
  case (Cons n ns)
  obtain c s where step: "notification_step h pe msal n st = (c, s)"
    by (cases "notification_step h pe msal n st")
  from store_notification_step [of h pe msal n st] step have "store s = store st"
    by simp
  with step Cons.IH [of s] show ?case
    by (cases c) simp_all
qed

lemma receive_batch_shift:
  "receive_batch h pe req (st\<lparr>trace := p @ trace st\<rparr>) =
     (case receive_batch h pe req st of (c, s) \<Rightarrow> (c, s\<lparr>trace := p @ trace s\<rparr>))"
proof -
  let ?st0 = "effect (Console (LogBody (req_body req))) st"
  have e: "effect (Console (LogBody (req_body req))) (st\<lparr>trace := p @ trace st\<rparr>) =
        ?st0\<lparr>trace := p @ trace ?st0\<rparr>"
    by (simp add: effect_def)
  obtain c s where r:
    "for_notifications h pe (msalClient req) (body_value (req_body req)) ?st0 = (c, s)"
    by (cases "for_notifications h pe (msalClient req) (body_value (req_body req)) ?st0")
  then have r': "for_notifications h pe (msalClient req) (body_value (req_body req))
      (?st0\<lparr>trace := p @ trace ?st0\<rparr>) = (c, s\<lparr>trace := p @ trace s\<rparr>)"
    by (simp add: for_notifications_shift)
  have f: "effect x (s\<lparr>trace := p @ trace s\<rparr>) = (effect x s)\<lparr>trace := p @ trace (effect x s)\<rparr>"
    for x s
    by (simp add: effect_def)
  show ?thesis
    unfolding receive_batch_def Let_def e
    using r r'
    by (cases "areTokensValid h pe (req_body req)"; cases c) (simp_all add: f)
qed

lemma store_receive_batch: "store (snd (receive_batch h pe req st)) = store st"
proof -
  let ?st0 = "effect (Console (LogBody (req_body req))) st"
  have "store (snd (for_notifications h pe (msalClient req) (body_value (req_body req)) ?st0)) = store st"
    by (simp add: store_for_notifications store_effect)
  then show ?thesis
    by (auto simp add: receive_batch_def Let_def store_effect
        split: sum.splits prod.splits completion.splits)
qed

lemma router_post_shift:
  "router_post h pe req (st\<lparr>trace := p @ trace st\<rparr>) =
     (case router_post h pe req st of (c, s) \<Rightarrow> (c, s\<lparr>trace := p @ trace s\<rparr>))"
  by (simp add: router_post_def receive_batch_shift effect_def split: option.splits)

lemma store_router_post: "store (snd (router_post h pe req st)) = store st"
  by (simp add: router_post_def store_receive_batch store_effect split: option.splits)

subsection \<open>Every decryption follows a valid signature\<close>

text \<open>
  Over a whole batch: each call of \<^verbatim>\<open>certHelper.decryptPayload\<close> the loop makes is for the
  ciphertext of an encrypted notification of the batch, with the key unwrapped from that
  notification, after \<^verbatim>\<open>certHelper.verifySignature\<close> returned true for them.
\<close>

lemma decryptions_processEncryptedNotification:
  assumes "(d, k) \<in> set (decryptions (trace (snd (processEncryptedNotification h pe n st))))"
  shows "(d, k) \<in> set (decryptions (trace st)) \<or>
         (\<exists>ec. encryptedContent n = Some ec \<and> d = data ec \<and>
            decryptSymmetricKey h (dataKey ec) (PRIVATE_KEY_PATH pe) = Inr k \<and>
            verifySignature h (dataSignature ec) (data ec) k = Inr True)"
  using assms
  by (auto simp add: processEncryptedNotification_def emitNotification_def effect_def Let_def
      decryptions_append split: option.splits sum.splits if_splits)

lemma decryptions_processNotification:
  "decryptions (trace (snd (processNotification h n msal uid st))) = decryptions (trace st)"
  by (simp add: processNotification_def emitNotification_def effect_def Let_def
      decryptions_append split: option.splits sum.splits)

lemma decryptions_notification_step:
  assumes "(d, k) \<in> set (decryptions (trace (snd (notification_step h pe msal n st))))"
  shows "(d, k) \<in> set (decryptions (trace st)) \<or>
         (\<exists>ec. encryptedContent n = Some ec \<and> d = data ec \<and>
            decryptSymmetricKey h (dataKey ec) (PRIVATE_KEY_PATH pe) = Inr k \<and>
            verifySignature h (dataSignature ec) (data ec) k = Inr True)"
proof -
  let ?st1 = "effect (DbGet (subscriptionId n)) st"
  have d1: "decryptions (trace ?st1) = decryptions (trace st)"
    by (simp add: trace_effect decryptions_append)
  show ?thesis
  proof (cases "clientState n = SUBSCRIPTION_CLIENT_STATE pe \<and>
      getSubscription (store ?st1) (subscriptionId n) \<noteq> None")
    case False
    with assms d1 show ?thesis
      by (auto simp add: notification_step_def Let_def split: if_splits)
  next
    case True
    then obtain sub where sub: "getSubscription (store ?st1) (subscriptionId n) = Some sub"
      by auto
    show ?thesis
    proof (cases "encryptedContent n")
      case None
      with True sub assms d1 show ?thesis
        by (simp add: notification_step_def Let_def decryptions_processNotification)
    next
      case (Some ec)
      with True sub assms
      have "(d, k) \<in> set (decryptions (trace (snd (processEncryptedNotification h pe n ?st1))))"
        by (simp add: notification_step_def Let_def)
      from decryptions_processEncryptedNotification [OF this] d1 show ?thesis
        by simp
    qed
  qed
qed

lemma decryptions_for_notifications:
  assumes "(d, k) \<in> set (decryptions (trace (snd (for_notifications h pe msal ns st))))"
  shows "(d, k) \<in> set (decryptions (trace st)) \<or>
         (\<exists>n \<in> set ns. \<exists>ec. encryptedContent n = Some ec \<and> d = data ec \<and>
            decryptSymmetricKey h (dataKey ec) (PRIVATE_KEY_PATH pe) = Inr k \<and>
            verifySignature h (dataSignature ec) (data ec) k = Inr True)"
  using assms
proof (induction ns arbitrary: st)
  case Nil
  then show ?case by simp
next
  case (Cons n ns)
  obtain c s where step: "notification_step h pe msal n st = (c, s)"
    by (cases "notification_step h pe msal n st")
  have "(d, k) \<in> set (decryptions (trace s)) \<or>
      (\<exists>m \<in> set ns. \<exists>ec. encryptedContent m = Some ec \<and> d = data ec \<and>
            decryptSymmetricKey h (dataKey ec) (PRIVATE_KEY_PATH pe) = Inr k \<and>
            verifySignature h (dataSignature ec) (data ec) k = Inr True)"
  proof (cases c)
    case Normal
    with step Cons.prems have "(d, k) \<in> set (decryptions (trace (snd (for_notifications h pe msal ns s))))"
      by simp
    from Cons.IH [OF this] show ?thesis .
  next
    case (Thrown e)
    with step Cons.prems show ?thesis by simp
  qed
  moreover have "(d, k) \<in> set (decryptions (trace s)) \<Longrightarrow>
      (d, k) \<in> set (decryptions (trace st)) \<or>
      (\<exists>ec. encryptedContent n = Some ec \<and> d = data ec \<and>
            decryptSymmetricKey h (dataKey ec) (PRIVATE_KEY_PATH pe) = Inr k \<and>
            verifySignature h (dataSignature ec) (data ec) k = Inr True)"
    using decryptions_notification_step [of d k h pe msal n st] step by simp
  ultimately show ?case
    by auto
qed

subsection \<open>When the handler acknowledges\<close>

text \<open>Whenever the handler returns on a batch, the last thing it did was
  \<^verbatim>\<open>res.status(202).end()\<close>.\<close>

lemma returns_acknowledged:
  assumes "\<not> truthy (query_validationToken req)"
    and "router_post h pe req st = (Normal, st')"
  shows "\<exists>es. trace st' = es @ [ResStatusEnd 202]"
  using assms
  by (auto simp add: router_post_batch receive_batch_def Let_def trace_effect
      split: sum.splits prod.splits completion.splits if_splits)

lemmas run_defs =
  router_post_def receive_batch_def areTokensValid_def notification_step_def
  processEncryptedNotification_def processNotification_def emitNotification_def
  getSubscription_def effect_def truthy_def
  batch_request_def plain_notification_def encrypted_notification_def
  example_env_def example_helpers_def example_state_def

section \<open>The claims\<close>

subsection \<open>Signature verification precedes decryption\<close>

text \<open>
  C1. For an encrypted notification whose symmetric key was recovered and whose
  \<^verbatim>\<open>dataSignature\<close> does not verify against it (the verification returns false, or
  throws), \<^verbatim>\<open>processEncryptedNotification\<close> leaves the state as it was: the ciphertext
  \<^verbatim>\<open>data\<close> is not decrypted, no plaintext is emitted. In the loop of the handler the
  notification adds no decryption and no dispatch event.
\<close>

theorem invalid_signature_never_decrypts:
  assumes "encryptedContent n = Some ec"
    and "decryptSymmetricKey h (dataKey ec) (PRIVATE_KEY_PATH pe) = Inr key"
    and "verifySignature h (dataSignature ec) (data ec) key \<noteq> Inr True"
  shows "snd (processEncryptedNotification h pe n st) = st \<and>
         decryptions (trace (snd (notification_step h pe msal n st))) = decryptions (trace st) \<and>
         dispatches (trace (snd (notification_step h pe msal n st))) = dispatches (trace st)"
proof -
  have enc: "snd (processEncryptedNotification h pe n s) = s" for s
    using assms
    by (cases "verifySignature h (dataSignature ec) (data ec) key")
      (auto simp add: processEncryptedNotification_def)
  have step: "trace (snd (notification_step h pe msal n st)) = trace st \<or>
      trace (snd (notification_step h pe msal n st)) = trace st @ [DbGet (subscriptionId n)]"
    using assms(1) enc
    by (simp add: notification_step_def Let_def trace_effect split: option.splits)
  from enc step show ?thesis
    by (auto simp add: decryptions_append dispatches_append)
qed

theorem invalid_signature_never_decrypts_witness:
  "encryptedContent (encrypted_notification ''wrapped'' ''mac:forged'' ''cipher'') =
     Some \<lparr>dataKey = ''wrapped'', dataSignature = ''mac:forged'', data = ''cipher''\<rparr> \<and>
   decryptSymmetricKey example_helpers ''wrapped'' (PRIVATE_KEY_PATH example_env) = Inr ''K'' \<and>
   verifySignature example_helpers ''mac:forged'' ''cipher'' ''K'' \<noteq> Inr True \<and>
   snd (processEncryptedNotification example_helpers example_env
          (encrypted_notification ''wrapped'' ''mac:forged'' ''cipher'') example_state) = example_state \<and>
   decryptions (trace (snd (notification_step example_helpers example_env ''msal''
          (encrypted_notification ''wrapped'' ''mac:forged'' ''cipher'') example_state))) = [] \<and>
   dispatches (trace (snd (notification_step example_helpers example_env ''msal''
          (encrypted_notification ''wrapped'' ''mac:forged'' ''cipher'') example_state))) = []"
  using invalid_signature_never_decrypts
    [of "encrypted_notification ''wrapped'' ''mac:forged'' ''cipher''"
        "\<lparr>dataKey = ''wrapped'', dataSignature = ''mac:forged'', data = ''cipher''\<rparr>"
        example_helpers example_env "''K''" example_state "''msal''"]
  by (simp add: encrypted_notification_def example_helpers_def example_state_def)

subsection \<open>A validation token that fails\<close>

text \<open>
  C2. For a batch whose \<^verbatim>\<open>validationTokens\<close> are all verified to a boolean
  (\<^verbatim>\<open>tokenHelper.isTokenValid\<close> resolves for each) and at least one of them to false, the
  validity of the batch is the conjunction of all the results, which is false; no
  notification is processed and nothing is emitted (the effects are the log of the body and
  the response), and the batch is acknowledged with the status 202.
\<close>

theorem invalid_token_suppresses_batch:
  assumes "\<not> truthy (query_validationToken req)"
    and "validationTokens (req_body req) = Some tokens"
    and "map (\<lambda>token. isTokenValid h token (OAUTH_CLIENT_ID pe) (OAUTH_TENANT_ID pe)) tokens =
           map Inr results"
    and "False \<in> set results"
  shows "areTokensValid h pe (req_body req) = Inr (list_all (\<lambda>r. r) results) \<and>
         \<not> list_all (\<lambda>r. r) results \<and>
         router_post h pe req st =
           (Normal, st\<lparr>trace := trace st @ [Console (LogBody (req_body req)), ResStatusEnd 202]\<rparr>)"
proof -
  from assms(4) have ne: "results \<noteq> []" and inv: "\<not> list_all (\<lambda>r. r) results"
    by (auto simp add: list_all_iff)
  from assms(2,3) ne have v: "areTokensValid h pe (req_body req) = Inr (list_all (\<lambda>r. r) results)"
    by (simp add: areTokensValid_def promise_all_map_Inr reduce_and_nonempty)
  from assms(1) v inv have "router_post h pe req st =
      (Normal, st\<lparr>trace := trace st @ [Console (LogBody (req_body req)), ResStatusEnd 202]\<rparr>)"
    by (simp add: router_post_batch receive_batch_def effect_def)
  with v inv show ?thesis by simp
qed

theorem invalid_token_suppresses_batch_witness:
  "\<not> truthy (query_validationToken
        (batch_request (Some [''good'', ''bad'']) [plain_notification ''updated'' ''users/u1/events/e1''])) \<and>
   map (\<lambda>token. isTokenValid example_helpers token (OAUTH_CLIENT_ID example_env)
          (OAUTH_TENANT_ID example_env)) [''good'', ''bad''] = map Inr [True, False] \<and>
   False \<in> set [True, False] \<and>
   router_post example_helpers example_env
       (batch_request (Some [''good'', ''bad'']) [plain_notification ''updated'' ''users/u1/events/e1''])
       example_state =
     (Normal, example_state\<lparr>trace :=
        [Console (LogBody \<lparr>validationTokens = Some [''good'', ''bad''],
            body_value = [plain_notification ''updated'' ''users/u1/events/e1'']\<rparr>),
         ResStatusEnd 202]\<rparr>)"
  using invalid_token_suppresses_batch
    [of "batch_request (Some [''good'', ''bad'']) [plain_notification ''updated'' ''users/u1/events/e1'']"
        "[''good'', ''bad'']" example_helpers example_env "[True, False]" example_state]
  by (simp add: batch_request_def truthy_def example_helpers_def example_state_def)

subsection \<open>Notifications that are not authenticated\<close>

text \<open>
  C3. A notification whose \<^verbatim>\<open>clientState\<close> is not the configured secret, or whose
  \<^verbatim>\<open>subscriptionId\<close> has no record in the store, is skipped in silence: the body of the
  loop returns normally, its only possible effect is the read of the store, it emits no
  dispatch event, and the loop goes on with the notifications that follow.
\<close>

theorem unauthenticated_notification_skipped:
  assumes "clientState n \<noteq> SUBSCRIPTION_CLIENT_STATE pe \<or> store st (subscriptionId n) = None"
  shows "notification_step h pe msal n st =
           (Normal,
            if clientState n = SUBSCRIPTION_CLIENT_STATE pe
            then st\<lparr>trace := trace st @ [DbGet (subscriptionId n)]\<rparr> else st) \<and>
         dispatches (trace (snd (notification_step h pe msal n st))) = dispatches (trace st) \<and>
         for_notifications h pe msal (n # ns) st =
           for_notifications h pe msal ns (snd (notification_step h pe msal n st))"
proof -
  from assms have step: "notification_step h pe msal n st =
      (Normal,
       if clientState n = SUBSCRIPTION_CLIENT_STATE pe
       then st\<lparr>trace := trace st @ [DbGet (subscriptionId n)]\<rparr> else st)"
    by (auto simp add: notification_step_def getSubscription_def effect_def)
  then show ?thesis
    by (simp add: dispatches_append)
qed

theorem unauthenticated_notification_skipped_witness:
  "clientState ((plain_notification ''updated'' ''users/u1/events/e1'')\<lparr>clientState := Some ''guess''\<rparr>)
      \<noteq> SUBSCRIPTION_CLIENT_STATE example_env \<and>
   notification_step example_helpers example_env ''msal''
      ((plain_notification ''updated'' ''users/u1/events/e1'')\<lparr>clientState := Some ''guess''\<rparr>)
      example_state = (Normal, example_state) \<and>
   store example_state
      (subscriptionId ((plain_notification ''updated'' ''users/u1/events/e1'')\<lparr>subscriptionId := ''sub9''\<rparr>))
      = None \<and>
   notification_step example_helpers example_env ''msal''
      ((plain_notification ''updated'' ''users/u1/events/e1'')\<lparr>subscriptionId := ''sub9''\<rparr>)
      example_state = (Normal, example_state\<lparr>trace := [DbGet ''sub9'']\<rparr>) \<and>
   dispatches (trace (snd (for_notifications example_helpers example_env ''msal''
      [(plain_notification ''updated'' ''users/u1/events/e1'')\<lparr>clientState := Some ''guess''\<rparr>,
       plain_notification ''updated'' ''users/u1/events/e1''] example_state))) =
     [(''sub1'', \<lparr>ev_type = ''event'', ev_resource = JObject []\<rparr>)]"
proof -
  let ?good = "plain_notification ''updated'' ''users/u1/events/e1''"
  let ?wrong = "?good\<lparr>clientState := Some ''guess''\<rparr>"
  let ?unknown = "?good\<lparr>subscriptionId := ''sub9''\<rparr>"
  have w: "clientState ?wrong \<noteq> SUBSCRIPTION_CLIENT_STATE example_env"
    by (simp add: example_env_def)
  have u: "store example_state (subscriptionId ?unknown) = None"
    by (simp add: example_state_def)
  have rest: "dispatches (trace (snd (for_notifications example_helpers example_env ''msal''
      [?good] example_state))) = [(''sub1'', \<lparr>ev_type = ''event'', ev_resource = JObject []\<rparr>)]"
    by (simp add: notification_step_def processNotification_def emitNotification_def
        getSubscription_def effect_def plain_notification_def example_env_def
        example_helpers_def example_state_def)
  from w have w': "clientState ?wrong \<noteq> SUBSCRIPTION_CLIENT_STATE example_env \<or>
      store example_state (subscriptionId ?wrong) = None"
    by simp
  from u have u': "clientState ?unknown \<noteq> SUBSCRIPTION_CLIENT_STATE example_env \<or>
      store example_state (subscriptionId ?unknown) = None"
    by simp
  note a = unauthenticated_notification_skipped
    [OF w', of example_helpers "''msal''" "[?good]"]
  note b = unauthenticated_notification_skipped
    [OF u', of example_helpers "''msal''" "[]"]
  from a w have a1: "notification_step example_helpers example_env ''msal'' ?wrong example_state =
      (Normal, example_state)"
    by simp
  from a a1 rest have a2: "dispatches (trace (snd (for_notifications example_helpers example_env
      ''msal'' [?wrong, ?good] example_state))) =
      [(''sub1'', \<lparr>ev_type = ''event'', ev_resource = JObject []\<rparr>)]"
    by simp
  have "clientState ?unknown = SUBSCRIPTION_CLIENT_STATE example_env"
    by (simp add: plain_notification_def example_env_def)
  with b have b1: "notification_step example_helpers example_env ''msal'' ?unknown example_state =
      (Normal, example_state\<lparr>trace := [DbGet ''sub9'']\<rparr>)"
    by (simp add: example_state_def)
  from w u a1 a2 b1 show ?thesis
    by simp
qed

subsection \<open>A decryption failure and the rest of the batch\<close>

text \<open>
  C4. The claim is that a decryption failure ends the processing of the one notification
  only. The handler does this for an invalid signature, and for nothing else:
  \<^verbatim>\<open>processEncryptedNotification\<close> catches nothing, and the handler calls it with no
  \<^verbatim>\<open>try\<close>, so a payload that does not parse (\<^verbatim>\<open>JSON.parse\<close> throws) or a key that
  does not unwrap (the helper throws) ends the loop. Here the batch is such an encrypted
  notification followed by a plain one that, sent alone, is dispatched and acknowledged:
  the exception leaves the handler, the plain notification is never looked at, nothing is
  emitted and no response is sent.
\<close>

theorem decryption_failure_aborts_batch:
  "fst (router_post example_helpers example_env
          (batch_request None
             [encrypted_notification ''wrapped'' ''mac:junk'' ''junk'',
              plain_notification ''updated'' ''users/u1/events/e1''])
          example_state) = Thrown (SyntaxError ''Unexpected token'') \<and>
   trace (snd (router_post example_helpers example_env
          (batch_request None
             [encrypted_notification ''wrapped'' ''mac:junk'' ''junk'',
              plain_notification ''updated'' ''users/u1/events/e1''])
          example_state)) =
     [Console (LogBody \<lparr>validationTokens = None, body_value =
         [encrypted_notification ''wrapped'' ''mac:junk'' ''junk'',
          plain_notification ''updated'' ''users/u1/events/e1'']\<rparr>),
      DbGet ''sub1'', DecryptPayload ''junk'' ''K''] \<and>
   fst (router_post example_helpers example_env
          (batch_request None
             [encrypted_notification ''other'' ''mac:cipher'' ''cipher'',
              plain_notification ''updated'' ''users/u1/events/e1''])
          example_state) = Thrown (HelperError ''unwrap'') \<and>
   trace (snd (router_post example_helpers example_env
          (batch_request None
             [encrypted_notification ''other'' ''mac:cipher'' ''cipher'',
              plain_notification ''updated'' ''users/u1/events/e1''])
          example_state)) =
     [Console (LogBody \<lparr>validationTokens = None, body_value =
         [encrypted_notification ''other'' ''mac:cipher'' ''cipher'',
          plain_notification ''updated'' ''users/u1/events/e1'']\<rparr>),
      DbGet ''sub1''] \<and>
   trace (snd (router_post example_helpers example_env
          (batch_request None [plain_notification ''updated'' ''users/u1/events/e1''])
          example_state)) =
     [Console (LogBody \<lparr>validationTokens = None, body_value =
         [plain_notification ''updated'' ''users/u1/events/e1'']\<rparr>),
      DbGet ''sub1'', Emit ''sub1'' \<lparr>ev_type = ''event'', ev_resource = JObject []\<rparr>,
      ResStatusEnd 202]"
  by (simp add: run_defs)

subsection \<open>A created resource\<close>

text \<open>
  C5, as stated, fails. The claim is for every authenticated plain notification whose
  \<^verbatim>\<open>changeType\<close> is \<^verbatim>\<open>created\<close>. Two things happen in \<^verbatim>\<open>processNotification\<close> before
  its \<^verbatim>\<open>try\<close>: line 109 reads \<^verbatim>\<open>notification.resourceData.id\<close>, and line 113 makes the
  graph client. For such a notification with no \<^verbatim>\<open>resourceData\<close> the first throws a
  \<^verbatim>\<open>TypeError\<close>; for one of a subscription with an empty user account id the helper
  (here) throws. In both runs the exception leaves the function after the read of the
  store: nothing is fetched, nothing is written to the console, nothing is emitted.
\<close>

theorem created_notification_counterexample:
  "clientState ((plain_notification ''created'' ''users/u1/events/e1'')\<lparr>resourceData := None\<rparr>) =
     SUBSCRIPTION_CLIENT_STATE example_env \<and>
   store example_state ''sub1'' = Some \<lparr>userAccountId = ''u1''\<rparr> \<and>
   notification_step example_helpers example_env ''msal''
       ((plain_notification ''created'' ''users/u1/events/e1'')\<lparr>resourceData := None\<rparr>)
       example_state =
     (Thrown (TypeError ''Cannot read properties of undefined''),
      example_state\<lparr>trace := [DbGet ''sub1'']\<rparr>) \<and>
   store example_state ''sub2'' = Some \<lparr>userAccountId = []\<rparr> \<and>
   notification_step example_helpers example_env ''msal''
       ((plain_notification ''created'' ''users/u1/events/e1'')\<lparr>subscriptionId := ''sub2''\<rparr>)
       example_state =
     (Thrown (HelperError ''Invalid MSAL state''),
      example_state\<lparr>trace := [DbGet ''sub2'']\<rparr>)"
  by (simp add: notification_step_def processNotification_def getSubscription_def effect_def
      plain_notification_def example_env_def example_helpers_def example_state_def)

text \<open>
  C5, amended. For an authenticated plain notification whose \<^verbatim>\<open>changeType\<close> is
  \<^verbatim>\<open>created\<close>, that has its \<^verbatim>\<open>resourceData\<close> and for whose user a graph client is
  obtained, the handler reads the subscription, fetches \<^verbatim>\<open>subject,id\<close> of the resource at
  the path \<^verbatim>\<open>/\<close> followed by \<^verbatim>\<open>notification.resource\<close>, and then: when the fetch
  returns, emits one event to the subscription's room, whose type is the \<^verbatim>\<open>@odata.type\<close>
  of the resource data and whose resource is what was fetched; when the fetch throws, writes
  the error to the console and emits nothing. In both cases it returns normally.
\<close>

theorem created_notification_fetches_and_dispatches:
  assumes "clientState n = SUBSCRIPTION_CLIENT_STATE pe"
    and "store st (subscriptionId n) = Some sub"
    and "encryptedContent n = None"
    and "changeType n = ''created''"
    and "resourceData n = Some rd"
    and "getGraphClientForUser h msal (userAccountId sub) = Inr client"
  shows "notification_step h pe msal n st =
           (Normal,
            st\<lparr>trace := trace st @
              [DbGet (subscriptionId n), GraphGet client (''/'' @ resource n) ''subject,id''] @
              (case graph_get h client (''/'' @ resource n) ''subject,id'' of
                 Inr event \<Rightarrow>
                   [Emit (subscriptionId n) \<lparr>ev_type = odata_type rd, ev_resource = event\<rparr>]
               | Inl err \<Rightarrow>
                   [Console (LogMsg (''Error getting event with '' @ rd_id rd @ '':'')),
                    Console (LogErr err)])\<rparr>)"
  using assms
  by (simp add: notification_step_def processNotification_def emitNotification_def
      getSubscription_def effect_def Let_def split: sum.splits)

theorem created_notification_fetches_and_dispatches_witness:
  "clientState (plain_notification ''created'' ''users/u1/events/e1'') =
     SUBSCRIPTION_CLIENT_STATE example_env \<and>
   store example_state (subscriptionId (plain_notification ''created'' ''users/u1/events/e1'')) =
     Some \<lparr>userAccountId = ''u1''\<rparr> \<and>
   resourceData (plain_notification ''created'' ''users/u1/events/e1'') =
     Some \<lparr>rd_id = ''e1'', odata_type = ''#Microsoft.Graph.Event''\<rparr> \<and>
   getGraphClientForUser example_helpers ''msal'' ''u1'' = Inr ''u1'' \<and>
   notification_step example_helpers example_env ''msal''
       (plain_notification ''created'' ''users/u1/events/e1'') example_state =
     (Normal, example_state\<lparr>trace :=
        [DbGet ''sub1'', GraphGet ''u1'' ''/users/u1/events/e1'' ''subject,id'',
         Emit ''sub1'' \<lparr>ev_type = ''#Microsoft.Graph.Event'', ev_resource = example_event\<rparr>]\<rparr>) \<and>
   notification_step example_helpers example_env ''msal''
       (plain_notification ''created'' ''users/u1/events/gone'') example_state =
     (Normal, example_state\<lparr>trace :=
        [DbGet ''sub1'', GraphGet ''u1'' ''/users/u1/events/gone'' ''subject,id'',
         Console (LogMsg ''Error getting event with e1:''),
         Console (LogErr (HelperError ''404''))]\<rparr>)"
  using created_notification_fetches_and_dispatches
    [where n = "plain_notification ''created'' ''users/u1/events/e1''" and pe = example_env
       and st = example_state and sub = "\<lparr>userAccountId = ''u1''\<rparr>"
       and rd = "\<lparr>rd_id = ''e1'', odata_type = ''#Microsoft.Graph.Event''\<rparr>"
       and h = example_helpers and msal = "''msal''" and client = "''u1''"]
    created_notification_fetches_and_dispatches
    [where n = "plain_notification ''created'' ''users/u1/events/gone''" and pe = example_env
       and st = example_state and sub = "\<lparr>userAccountId = ''u1''\<rparr>"
       and rd = "\<lparr>rd_id = ''e1'', odata_type = ''#Microsoft.Graph.Event''\<rparr>"
       and h = example_helpers and msal = "''msal''" and client = "''u1''"]
  by (simp add: plain_notification_def example_env_def example_helpers_def example_state_def)

subsection \<open>An encrypted notification with a valid signature\<close>

text \<open>
  C6, as stated, fails. The claim is for every authenticated encrypted notification whose
  signature verifies. After the verification the handler still has to decrypt the payload
  and to parse it, and \<^verbatim>\<open>processEncryptedNotification\<close> catches nothing: for a notification
  whose signature verifies and whose plaintext is not JSON, \<^verbatim>\<open>JSON.parse\<close> throws, and
  for one whose decryption throws (here) the helper's exception leaves the function. In both
  runs no event is emitted.
\<close>

theorem verified_encrypted_notification_counterexample:
  "clientState (encrypted_notification ''wrapped'' ''mac:junk'' ''junk'') =
     SUBSCRIPTION_CLIENT_STATE example_env \<and>
   store example_state ''sub1'' = Some \<lparr>userAccountId = ''u1''\<rparr> \<and>
   decryptSymmetricKey example_helpers ''wrapped'' (PRIVATE_KEY_PATH example_env) = Inr ''K'' \<and>
   verifySignature example_helpers ''mac:junk'' ''junk'' ''K'' = Inr True \<and>
   notification_step example_helpers example_env ''msal''
       (encrypted_notification ''wrapped'' ''mac:junk'' ''junk'') example_state =
     (Thrown (SyntaxError ''Unexpected token''),
      example_state\<lparr>trace := [DbGet ''sub1'', DecryptPayload ''junk'' ''K'']\<rparr>) \<and>
   verifySignature example_helpers ''mac:truncated'' ''truncated'' ''K'' = Inr True \<and>
   notification_step example_helpers example_env ''msal''
       (encrypted_notification ''wrapped'' ''mac:truncated'' ''truncated'') example_state =
     (Thrown (HelperError ''bad decrypt''),
      example_state\<lparr>trace := [DbGet ''sub1'', DecryptPayload ''truncated'' ''K'']\<rparr>)"
  by (simp add: notification_step_def processEncryptedNotification_def getSubscription_def
      effect_def encrypted_notification_def example_env_def example_helpers_def
      example_state_def)

text \<open>
  C6, amended. For an authenticated encrypted notification whose key is recovered, whose
  signature verifies, and whose ciphertext decrypts to a text that parses, the handler
  decrypts \<^verbatim>\<open>encryptedContent.data\<close> with the recovered key and emits exactly one event, to
  the room named by the \<^verbatim>\<open>subscriptionId\<close>, with the type \<^verbatim>\<open>chatMessage\<close> and the parsed
  plaintext as its resource.
\<close>

theorem verified_encrypted_notification_dispatched:
  assumes "clientState n = SUBSCRIPTION_CLIENT_STATE pe"
    and "store st (subscriptionId n) = Some sub"
    and "encryptedContent n = Some ec"
    and "decryptSymmetricKey h (dataKey ec) (PRIVATE_KEY_PATH pe) = Inr key"
    and "verifySignature h (dataSignature ec) (data ec) key = Inr True"
    and "decryptPayload h (data ec) key = Inr plaintext"
    and "JSON_parse h plaintext = Inr parsed"
  shows "notification_step h pe msal n st =
           (Normal,
            st\<lparr>trace := trace st @
              [DbGet (subscriptionId n), DecryptPayload (data ec) key,
               Emit (subscriptionId n) \<lparr>ev_type = ''chatMessage'', ev_resource = parsed\<rparr>]\<rparr>)"
  using assms
  by (simp add: notification_step_def processEncryptedNotification_def emitNotification_def
      getSubscription_def effect_def)

theorem verified_encrypted_notification_dispatched_witness:
  "clientState (encrypted_notification ''wrapped'' ''mac:cipher'' ''cipher'') =
     SUBSCRIPTION_CLIENT_STATE example_env \<and>
   store example_state (subscriptionId (encrypted_notification ''wrapped'' ''mac:cipher'' ''cipher'')) =
     Some \<lparr>userAccountId = ''u1''\<rparr> \<and>
   decryptSymmetricKey example_helpers ''wrapped'' (PRIVATE_KEY_PATH example_env) = Inr ''K'' \<and>
   verifySignature example_helpers ''mac:cipher'' ''cipher'' ''K'' = Inr True \<and>
   decryptPayload example_helpers ''cipher'' ''K'' = Inr ''{}'' \<and>
   JSON_parse example_helpers ''{}'' = Inr (JObject []) \<and>
   notification_step example_helpers example_env ''msal''
       (encrypted_notification ''wrapped'' ''mac:cipher'' ''cipher'') example_state =
     (Normal, example_state\<lparr>trace :=
        [DbGet ''sub1'', DecryptPayload ''cipher'' ''K'',
         Emit ''sub1'' \<lparr>ev_type = ''chatMessage'', ev_resource = JObject []\<rparr>]\<rparr>)"
  using verified_encrypted_notification_dispatched
    [of "encrypted_notification ''wrapped'' ''mac:cipher'' ''cipher''" example_env example_state
        "\<lparr>userAccountId = ''u1''\<rparr>"
        "\<lparr>dataKey = ''wrapped'', dataSignature = ''mac:cipher'', data = ''cipher''\<rparr>"
        example_helpers "''K''" "''{}''" "JObject []" "''msal''"]
  by (simp add: encrypted_notification_def example_env_def example_helpers_def example_state_def)

subsection \<open>Changes other than a creation\<close>




subsection \<open>The acknowledgement\<close>

text \<open>
  C8. The claim is that every batch is answered with the status 202. The statement
  \<^verbatim>\<open>res.status(202).end()\<close> is the last of the handler and is reached whenever the handler
  returns (\<open>returns_acknowledged\<close>), but not when an exception leaves it. A batch with
  \<^verbatim>\<open>validationTokens: []\<close> is one: the \<^verbatim>\<open>reduce\<close> of line 39 has no initial value and
  throws on the empty array, and the handler sends no response.
\<close>

theorem empty_validationTokens_not_acknowledged:
  "fst (router_post example_helpers example_env
          (batch_request (Some []) [plain_notification ''updated'' ''users/u1/events/e1''])
          example_state) =
     Thrown (TypeError ''Reduce of empty array with no initial value'') \<and>
   responses (trace (snd (router_post example_helpers example_env
          (batch_request (Some []) [plain_notification ''updated'' ''users/u1/events/e1''])
          example_state))) = []"
  by (simp add: run_defs)

subsection \<open>Processing a batch again\<close>

text \<open>
  C9. The handler leaves the subscription store as it found it (its one operation on the
  store is the read by subscription id), and the request is a value it only reads. So when
  the same batch is processed again, on the state the first run left and with the same
  helpers, the handler completes the same way and has the same effects again, in the same
  order: the trace after the second run is the trace after the first followed by what the
  first run added, and so are the dispatch events.
\<close>

theorem reprocessing_repeats_effects:
  assumes "router_post h pe req st = (c, st')"
  shows "store st' = store st \<and>
         take (length (trace st)) (trace st') = trace st \<and>
         router_post h pe req st' =
           (c, st'\<lparr>trace := trace st' @ drop (length (trace st)) (trace st')\<rparr>) \<and>
         dispatches (trace (snd (router_post h pe req st'))) =
           dispatches (trace st') @ dispatches (drop (length (trace st)) (trace st'))"
proof -
  let ?s0 = "st\<lparr>trace := []\<rparr>"
  obtain c0 s0 where r0: "router_post h pe req ?s0 = (c0, s0)"
    by (cases "router_post h pe req ?s0")
  have st0: "store s0 = store st"
    using store_router_post [of h pe req ?s0] r0 by simp
  have "router_post h pe req (?s0\<lparr>trace := trace st @ trace ?s0\<rparr>) =
      (c0, s0\<lparr>trace := trace st @ trace s0\<rparr>)"
    using r0 by (simp only: router_post_shift prod.case)
  with assms have c: "c = c0" and s: "st' = s0\<lparr>trace := trace st @ trace s0\<rparr>"
    by simp_all
  from s st0 have base: "st'\<lparr>trace := []\<rparr> = ?s0"
    by simp
  have "router_post h pe req ((st'\<lparr>trace := []\<rparr>)\<lparr>trace := trace st' @ trace (st'\<lparr>trace := []\<rparr>)\<rparr>) =
      (c0, s0\<lparr>trace := trace st' @ trace s0\<rparr>)"
    unfolding base using r0 by (simp only: router_post_shift prod.case)
  then have again: "router_post h pe req st' = (c0, s0\<lparr>trace := trace st' @ trace s0\<rparr>)"
    by simp
  from s have tr: "trace st' = trace st @ trace s0"
    by simp
  from again c s st0 tr show ?thesis
    by (simp add: dispatches_append)
qed

theorem reprocessing_repeats_effects_witness:
  "fst (router_post example_helpers example_env
          (batch_request None [plain_notification ''updated'' ''users/u1/events/e1'']) example_state) = Normal \<and>
   dispatches (trace (snd (router_post example_helpers example_env
          (batch_request None [plain_notification ''updated'' ''users/u1/events/e1'']) example_state))) =
     [(''sub1'', \<lparr>ev_type = ''event'', ev_resource = JObject []\<rparr>)] \<and>
   store (snd (router_post example_helpers example_env
          (batch_request None [plain_notification ''updated'' ''users/u1/events/e1'']) example_state)) =
     store example_state \<and>
   dispatches (trace (snd (router_post example_helpers example_env
          (batch_request None [plain_notification ''updated'' ''users/u1/events/e1''])
          (snd (router_post example_helpers example_env
             (batch_request None [plain_notification ''updated'' ''users/u1/events/e1''])
             example_state))))) =
     [(''sub1'', \<lparr>ev_type = ''event'', ev_resource = JObject []\<rparr>),
      (''sub1'', \<lparr>ev_type = ''event'', ev_resource = JObject []\<rparr>)]"
proof -
  let ?req = "batch_request None [plain_notification ''updated'' ''users/u1/events/e1'']"
  let ?run = "router_post example_helpers example_env ?req example_state"
  have first: "fst ?run = Normal \<and>
      dispatches (trace (snd ?run)) = [(''sub1'', \<lparr>ev_type = ''event'', ev_resource = JObject []\<rparr>)]"
    by (simp add: run_defs)
  have "?run = (fst ?run, snd ?run)"
    by simp
  from reprocessing_repeats_effects [OF this] first show ?thesis
    by (simp add: dispatches_append example_state_def)
qed

subsection \<open>An empty list of validation tokens\<close>

text \<open>
  C10. When \<^verbatim>\<open>validationTokens\<close> is present and empty, the results of the verification
  are an empty array, the \<^verbatim>\<open>reduce\<close> with no initial value throws, and the exception
  leaves the handler: the only effect is the log of the body at line 26. No notification is
  looked at, nothing is emitted and \<^verbatim>\<open>res.status(202).end()\<close> is not reached.
\<close>

theorem empty_validationTokens_throws:
  assumes "\<not> truthy (query_validationToken req)"
    and "validationTokens (req_body req) = Some []"
  shows "router_post h pe req st =
           (Thrown (TypeError ''Reduce of empty array with no initial value''),
            st\<lparr>trace := trace st @ [Console (LogBody (req_body req))]\<rparr>)"
  using assms
  by (simp add: router_post_batch receive_batch_def areTokensValid_def effect_def)

theorem empty_validationTokens_throws_witness:
  "\<not> truthy (query_validationToken (batch_request (Some []) [plain_notification ''updated'' ''x''])) \<and>
   validationTokens (req_body (batch_request (Some []) [plain_notification ''updated'' ''x''])) = Some [] \<and>
   router_post example_helpers example_env
       (batch_request (Some []) [plain_notification ''updated'' ''x'']) example_state =
     (Thrown (TypeError ''Reduce of empty array with no initial value''),
      example_state\<lparr>trace := [Console (LogBody
         \<lparr>validationTokens = Some [], body_value = [plain_notification ''updated'' ''x'']\<rparr>)]\<rparr>)"
  using empty_validationTokens_throws
    [of "batch_request (Some []) [plain_notification ''updated'' ''x'']"
        example_helpers example_env example_state]
  by (simp add: batch_request_def truthy_def example_state_def)

end
